theory Spec2Isabelle
  imports Main "HOL-Library.Sublist"
begin

section \<open>JavaScript values\<close>

text \<open>
  A JavaScript string is modelled as a \<open>string\<close>, a list of 8-bit characters read as the
  code units U+0000 to U+00FF. Case conversion is modelled on the ASCII letters and leaves
  the code units from U+0080 on unchanged; the tables of \<open>CONFIG\<close> that converted strings
  are compared with hold ASCII letters and digits only.

  A JavaScript number is an \<open>int option\<close>: \<open>None\<close> is \<open>NaN\<close>. The numbers of this program
  are results of \<open>parseInt\<close> and \<open>Date.parse\<close>, which are integers; the model keeps them
  exact, so the rounding of magnitudes above \<open>2^53\<close> is not represented.
\<close>

type_synonym number = "int option"

text \<open>What \<open>getValue\<close> can return: \<open>null\<close>, \<open>undefined\<close> or a string.\<close>

datatype jsstr = Null | Undefined | Str string

text \<open>Truthiness, as \<open>if (v)\<close>, \<open>!v\<close> and \<open>v || d\<close> read it.\<close>

fun truthy :: "jsstr \<Rightarrow> bool" where
  "truthy Null = False"
| "truthy Undefined = False"
| "truthy (Str s) = (s \<noteq> [])"

fun truthyNum :: "number \<Rightarrow> bool" where
  "truthyNum None = False"
| "truthyNum (Some n) = (n \<noteq> 0)"

definition isNaN :: "number \<Rightarrow> bool" where
  "isNaN x = (x = None)"

text \<open>\<open>x < k\<close> on numbers: a comparison with \<open>NaN\<close> is false.\<close>

fun lessNum :: "number \<Rightarrow> int \<Rightarrow> bool" where
  "lessNum None k = False"
| "lessNum (Some n) k = (n < k)"

subsection \<open>String methods\<close>

text \<open>
  White space of \<open>String.prototype.trim\<close> within U+0000 to U+00FF: TAB, LF, VT, FF, CR,
  SPACE and NO-BREAK SPACE.
\<close>

definition isWhiteSpace :: "char \<Rightarrow> bool" where
  "isWhiteSpace c = ((of_char c :: nat) \<in> {9, 10, 11, 12, 13, 32, 160})"

definition trimStart :: "string \<Rightarrow> string" where
  "trimStart s = dropWhile isWhiteSpace s"

definition trimEnd :: "string \<Rightarrow> string" where
  "trimEnd s = rev (dropWhile isWhiteSpace (rev s))"

definition trim :: "string \<Rightarrow> string" where
  "trim s = trimEnd (trimStart s)"

definition upperChar :: "char \<Rightarrow> char" where
  "upperChar c = (let n = (of_char c :: nat) in if 97 \<le> n \<and> n \<le> 122 then char_of (n - 32) else c)"

definition lowerChar :: "char \<Rightarrow> char" where
  "lowerChar c = (let n = (of_char c :: nat) in if 65 \<le> n \<and> n \<le> 90 then char_of (n + 32) else c)"

definition toUpperCase :: "string \<Rightarrow> string" where
  "toUpperCase s = map upperChar s"

definition toLowerCase :: "string \<Rightarrow> string" where
  "toLowerCase s = map lowerChar s"

definition startsWith :: "string \<Rightarrow> string \<Rightarrow> bool" where
  "startsWith s p = (take (length p) s = p)"

definition endsWith :: "string \<Rightarrow> string \<Rightarrow> bool" where
  "endsWith s p = (length p \<le> length s \<and> drop (length s - length p) s = p)"

subsection \<open>Array methods\<close>

text \<open>\<open>Array.prototype.indexOf\<close>: the first index holding the element, \<open>-1\<close> when there is none.\<close>

fun indexOf :: "'a list \<Rightarrow> 'a \<Rightarrow> int" where
  "indexOf [] x = - 1"
| "indexOf (y # ys) x =
     (if y = x then 0 else (let i = indexOf ys x in if i = - 1 then - 1 else i + 1))"

text \<open>\<open>xs[i]\<close>: \<open>undefined\<close> (here \<open>None\<close>) out of range.\<close>

definition at :: "'a list \<Rightarrow> int \<Rightarrow> 'a option" where
  "at xs i = (if 0 \<le> i \<and> i < int (length xs) then Some (xs ! nat i) else None)"

definition arrayIncludes :: "'a list \<Rightarrow> 'a \<Rightarrow> bool" where
  "arrayIncludes xs x = (x \<in> set xs)"

subsection \<open>parseInt\<close>

text \<open>
  \<open>parseInt(string)\<close> with no radix: leading white space is skipped, a sign is read, the
  prefix \<open>0x\<close>/\<open>0X\<close> selects radix 16, and the longest run of digits is converted; with no
  digit the result is \<open>NaN\<close>. \<open>null\<close> and \<open>undefined\<close> are first converted to the strings
  \<open>null\<close> and \<open>undefined\<close>.
\<close>

definition digitVal :: "char \<Rightarrow> nat option" where
  "digitVal c =
     (let n = (of_char c :: nat) in
      if 48 \<le> n \<and> n \<le> 57 then Some (n - 48)
      else if 97 \<le> n \<and> n \<le> 122 then Some (n - 87)
      else if 65 \<le> n \<and> n \<le> 90 then Some (n - 55)
      else None)"

definition isDigit :: "nat \<Rightarrow> char \<Rightarrow> bool" where
  "isDigit radix c = (case digitVal c of None \<Rightarrow> False | Some d \<Rightarrow> d < radix)"

definition digitsValue :: "nat \<Rightarrow> string \<Rightarrow> nat" where
  "digitsValue radix z =
     foldl (\<lambda>acc c. acc * radix + (case digitVal c of Some d \<Rightarrow> d | None \<Rightarrow> 0)) 0 z"

definition parseIntString :: "string \<Rightarrow> number" where
  "parseIntString s =
     (let s1 = trimStart s;
          neg = (s1 \<noteq> [] \<and> hd s1 = CHR ''-'');
          s2 = (if s1 \<noteq> [] \<and> (hd s1 = CHR ''-'' \<or> hd s1 = CHR ''+'') then tl s1 else s1);
          hex = (take 2 s2 = ''0x'' \<or> take 2 s2 = ''0X'');
          radix = (if hex then 16 else 10);
          s3 = (if hex then drop 2 s2 else s2);
          z = takeWhile (isDigit radix) s3
      in if z = [] then None
         else Some ((if neg then - 1 else 1) * int (digitsValue radix z)))"

fun toString :: "jsstr \<Rightarrow> string" where
  "toString Null = ''null''"
| "toString Undefined = ''undefined''"
| "toString (Str s) = s"

definition parseInt :: "jsstr \<Rightarrow> number" where
  "parseInt v = parseIntString (toString v)"

section \<open>config.js\<close>

definition defaultCompression :: string where "defaultCompression = ''NONE''"
definition defaultKey :: string where "defaultKey = ''default''"
definition defaultReadPosition :: string where "defaultReadPosition = ''latest''"
definition defaultThreads :: int where "defaultThreads = 1"
definition defaultTopic :: string where "defaultTopic = ''pulsar_companion''"
definition defaultType :: string where "defaultType = ''Exclusive''"
definition defaultName :: string where "defaultName = ''pulsar_companion_sub''"

definition validCompressionTypes :: "string list" where
  "validCompressionTypes = [''NONE'', ''LZ4'', ''ZLIB'', ''ZSTD'', ''SNAPPY'']"

definition validReadPositions :: "string list" where
  "validReadPositions = [''earliest'', ''latest'']"

definition validTypes :: "string list" where
  "validTypes = [''Exclusive'', ''Failover'', ''Shared'', ''KeyShared'']"

definition queueSize :: nat where "queueSize = 1000"
definition ackMessage :: nat where "ackMessage = 10000"

section \<open>ArgumentParser.js\<close>

datatype mode = PRODUCER | CONSUMER | READER

text \<open>The keys of \<open>this.params\<close>, and \<open>Object.entries\<close> order (the order of the literal).\<close>

datatype param =
  Compression | Help | Key | Send | Since | Subscription | Threads | Topic | Type | Version

definition paramKeys :: "param list" where
  "paramKeys = [Compression, Help, Key, Send, Since, Subscription, Threads, Topic, Type, Version]"

fun required :: "mode \<Rightarrow> param list" where
  "required PRODUCER = [Send]"
| "required CONSUMER = []"
| "required READER = [Since]"

fun optional :: "mode \<Rightarrow> param list" where
  "optional PRODUCER = [Compression, Key, Threads, Topic]"
| "optional CONSUMER = [Subscription, Topic, Type]"
| "optional READER = [Topic]"

text \<open>The constructor: each key holds the index of its flag in the arguments, or \<open>-1\<close>.\<close>

fun params :: "string list \<Rightarrow> param \<Rightarrow> int" where
  "params args Compression = max (indexOf args ''--compression'') (indexOf args ''-c'')"
| "params args Help = max (indexOf args ''--help'') (indexOf args ''-h'')"
| "params args Key = indexOf args ''--key''"
| "params args Send = indexOf args ''--send''"
| "params args Since = indexOf args ''--since''"
| "params args Subscription = max (indexOf args ''--sub'') (indexOf args ''-s'')"
| "params args Threads = max (indexOf args ''--threads'') (indexOf args ''-t'')"
| "params args Topic = indexOf args ''--topic''"
| "params args Type = indexOf args ''--type''"
| "params args Version = max (indexOf args ''--version'') (indexOf args ''-v'')"

definition hasParam :: "string list \<Rightarrow> param \<Rightarrow> bool" where
  "hasParam args p = (params args p \<noteq> - 1)"

definition getValue :: "string list \<Rightarrow> param \<Rightarrow> jsstr" where
  "getValue args p =
     (if params args p \<noteq> - 1
      then (case at args (params args p + 1) of None \<Rightarrow> Undefined | Some s \<Rightarrow> Str (trim s))
      else Null)"

definition determineMode :: "string list \<Rightarrow> mode" where
  "determineMode args =
     (if hasParam args Send then PRODUCER
      else if hasParam args Since then READER
      else CONSUMER)"

text \<open>
  Everything the program throws. The first eight are the \<open>Error\<close>s of the argument
  parser, \<open>ConfigError\<close> those of the configuration manager; \<open>ExternalError name\<close> is an
  error thrown by a collaborator (the broker client library, the file system), of which the
  program reads the \<open>name\<close> only.
\<close>

datatype error =
    MissingRequiredFlag param mode
  | FlagNotAllowedInMode param mode
  | MissingFlagValue param
  | InvalidThreadCount
  | InvalidCompressionType string
  | InvalidReadPosition string
  | InvalidSinceValue
  | InvalidSubscriptionType string
  | ConfigError string
  | ExternalError string

text \<open>
  How a call ends: it returns, it throws, or the process exits with a status
  (\<open>process.exit\<close>).
\<close>

datatype 'a outcome = Return 'a | Throw error | Exit int

fun checkRequired :: "string list \<Rightarrow> mode \<Rightarrow> param list \<Rightarrow> error option" where
  "checkRequired args m [] = None"
| "checkRequired args m (p # ps) =
     (if \<not> hasParam args p then Some (MissingRequiredFlag p m) else checkRequired args m ps)"

definition allowedParams :: "mode \<Rightarrow> param list" where
  "allowedParams m = required m @ optional m @ [Help, Version]"

fun checkAllowed :: "string list \<Rightarrow> mode \<Rightarrow> param list \<Rightarrow> error option" where
  "checkAllowed args m [] = None"
| "checkAllowed args m (p # ps) =
     (if params args p \<noteq> - 1 \<and> \<not> arrayIncludes (allowedParams m) p
      then Some (FlagNotAllowedInMode p m) else checkAllowed args m ps)"

definition truthyArg :: "string option \<Rightarrow> bool" where
  "truthyArg v = (case v of None \<Rightarrow> False | Some s \<Rightarrow> s \<noteq> [])"

fun checkValues :: "string list \<Rightarrow> param list \<Rightarrow> error option" where
  "checkValues args [] = None"
| "checkValues args (p # ps) =
     (if params args p \<noteq> - 1 \<and> \<not> truthyArg (at args (params args p + 1))
         \<and> \<not> arrayIncludes [Help, Version] p
      then Some (MissingFlagValue p) else checkValues args ps)"

text \<open>\<open>parseInt(this.getValue('threads')) || CONFIG.defaultThreads\<close>\<close>

definition getThreads :: "string list \<Rightarrow> number" where
  "getThreads args =
     (let n = parseInt (getValue args Threads) in if truthyNum n then n else Some defaultThreads)"

text \<open>\<open>(this.getValue('compression') || CONFIG.defaultCompression).toUpperCase()\<close>\<close>

definition getCompression :: "string list \<Rightarrow> string" where
  "getCompression args =
     toUpperCase (case getValue args Compression of
                    Str s \<Rightarrow> if s \<noteq> [] then s else defaultCompression
                  | _ \<Rightarrow> defaultCompression)"

definition getReadPosition :: "string list \<Rightarrow> string" where
  "getReadPosition args =
     (case getValue args Topic of
        Str s \<Rightarrow> if s \<noteq> [] then s else defaultReadPosition
      | _ \<Rightarrow> defaultReadPosition)"

definition getSubscriptionName :: "string list \<Rightarrow> string" where
  "getSubscriptionName args =
     (case getValue args Subscription of
        Str s \<Rightarrow> if s \<noteq> [] then s else defaultName
      | _ \<Rightarrow> defaultName)"

text \<open>
  \<open>Date.parse\<close> is the platform's; it is a parameter \<open>dateParse\<close> of the functions that
  call it, giving the epoch milliseconds of a string, or \<open>NaN\<close>. \<open>new Date(s).getTime()\<close>
  parses the string the same way.
\<close>

datatype sinceValue = SinceNull | SinceString string | SinceNumber number

text \<open>
  A fragment of \<open>Date.parse\<close>, on the two timestamps that the help text and the
  specification use, for running the functions on concrete arguments.
\<close>

definition dateParseSample :: "string \<Rightarrow> number" where
  "dateParseSample s =
     (if s = ''2024-01-20T10:00:00Z'' then Some 1705744800000
      else if s = ''2999-01-01T00:00:00Z'' then Some 32472144000000
      else None)"

definition getSinceValue :: "(string \<Rightarrow> number) \<Rightarrow> string list \<Rightarrow> sinceValue" where
  "getSinceValue dateParse args =
     (case getValue args Since of
        Str s \<Rightarrow>
          if s = [] then SinceNull
          else if arrayIncludes [''earliest'', ''latest''] (toLowerCase s)
               then SinceString (toLowerCase s)
               else SinceNumber (dateParse s)
      | _ \<Rightarrow> SinceNull)"

definition validateSpecificArgs :: "(string \<Rightarrow> number) \<Rightarrow> string list \<Rightarrow> unit outcome" where
  "validateSpecificArgs dateParse args =
     (let threads = getThreads args in
      if truthyNum threads \<and> (isNaN threads \<or> lessNum threads 1) then Throw InvalidThreadCount
      else
      let compression = getCompression args in
      if compression \<noteq> [] \<and> \<not> arrayIncludes validCompressionTypes (toUpperCase compression)
      then Throw (InvalidCompressionType compression)
      else
      let readPosition = getValue args Topic in
      if truthy readPosition \<and> \<not> arrayIncludes validReadPositions (toString readPosition)
      then Throw (InvalidReadPosition (toString readPosition))
      else
      let since = getValue args Since in
      if truthy since \<and> \<not> arrayIncludes [''earliest'', ''latest''] (toLowerCase (toString since))
         \<and> isNaN (dateParse (toString since))
      then Throw InvalidSinceValue
      else
      let requestedType = getValue args Type in
      if truthy requestedType \<and> \<not> arrayIncludes validTypes (toString requestedType)
      then Throw (InvalidSubscriptionType (toString requestedType))
      else Return ())"

text \<open>
  \<open>validateArgs\<close>: \<open>showHelp\<close> and \<open>showVersion\<close> both end in \<open>process.exit(0)\<close>; then the
  three loops over the flags, each throwing at the first flag that fails, then the checks
  of the values.
\<close>

definition validateArgs :: "(string \<Rightarrow> number) \<Rightarrow> string list \<Rightarrow> unit outcome" where
  "validateArgs dateParse args =
     (if hasParam args Help then Exit 0
      else if hasParam args Version then Exit 0
      else
        let m = determineMode args in
        case checkRequired args m (required m) of
          Some e \<Rightarrow> Throw e
        | None \<Rightarrow>
            (case checkAllowed args m paramKeys of
               Some e \<Rightarrow> Throw e
             | None \<Rightarrow>
                 (case checkValues args paramKeys of
                    Some e \<Rightarrow> Throw e
                  | None \<Rightarrow> validateSpecificArgs dateParse args)))"

text \<open>
  \<open>getSubscriptionType\<close>, with the lines it writes to the console.
\<close>

definition getSubscriptionType :: "string list \<Rightarrow> string list \<times> string outcome" where
  "getSubscriptionType args =
     (if hasParam args Key
      then ([''Key specified, automatically switching to KeyShared mode''], Return ''KeyShared'')
      else
        let requestedType = getValue args Type in
        if truthy requestedType \<and> \<not> arrayIncludes validTypes (toString requestedType)
        then ([], Throw (InvalidSubscriptionType (toString requestedType)))
        else ([], Return (if truthy requestedType then toString requestedType else defaultType)))"

text \<open>\<open>err.name\<close>: the errors the program itself throws are plain \<open>Error\<close>s.\<close>

fun errorName :: "error \<Rightarrow> string" where
  "errorName (ExternalError n) = n"
| "errorName e = ''Error''"

section \<open>Effects\<close>

text \<open>
  A call that awaits collaborators is modelled by the list of the effects it performs, in
  order, and how it ends. The collaborators' answers (whether a call of the broker client
  fails, what the clock reads) are parameters.
\<close>

datatype resource = ProducerRes | ConsumerRes | ClientRes

datatype startMessageId = Earliest | Latest

record message =
  messageId :: string
  publishTimestamp :: int
  data :: string
  partitionKey :: string

datatype event =
    Close resource
  | Log string
  | CreateReader nat startMessageId string
  | SeekTimestamp int
  | LogReaderFromTimestamp int
  | LogReaderFrom string
  | Subscribe nat string string jsstr string
  | LogConsumerCreated string jsstr
  | Receive bool
  | LogMessage message
  | Acknowledge message

type_synonym 'a run = "event list \<times> 'a outcome"

text \<open>Sequencing, as \<open>await\<close> does it: a throw or an exit ends the whole call.\<close>

definition andThen :: "'a run \<Rightarrow> ('a \<Rightarrow> 'b run) \<Rightarrow> 'b run" where
  "andThen m f =
     (case m of
        (t, Return x) \<Rightarrow> (case f x of (t', r) \<Rightarrow> (t @ t', r))
      | (t, Throw e) \<Rightarrow> (t, Throw e)
      | (t, Exit n) \<Rightarrow> (t, Exit n))"

section \<open>ConfigManager.js\<close>

text \<open>
  The parsed configuration file. A field that is missing and a field that is empty are
  both falsy; both are the empty string here.
\<close>

record userConfig =
  serviceUrl :: string
  token :: string
  namespace :: string

text \<open>
  The two statements that both \<open>loadUserConfig\<close> and \<open>createUserConfig\<close> apply to
  \<open>config.namespace\<close>.
\<close>

definition normalizeNamespace :: "string \<Rightarrow> string" where
  "normalizeNamespace ns =
     (let ns1 = (if \<not> endsWith ns ''/'' then ns @ ''/'' else ns)
      in if \<not> startsWith ns1 ''persistent://'' then ''persistent://'' @ ns1 else ns1)"

text \<open>
  What reading and parsing the file gives: no such file (\<open>ENOENT\<close>), another failure
  (an I/O error or a JSON syntax error, rethrown), or the parsed object.
\<close>

datatype fileRead = ENOENT | ReadFailure string | Parsed userConfig

record configEnv =
  fileRead :: fileRead
  promptAnswers :: userConfig
  writeOk :: bool

definition createUserConfig :: "configEnv \<Rightarrow> userConfig outcome" where
  "createUserConfig env =
     (let config = promptAnswers env in
      if writeOk env
      then Return (config\<lparr>namespace := normalizeNamespace (namespace config)\<rparr>)
      else Exit 1)"

definition loadUserConfig :: "configEnv \<Rightarrow> userConfig outcome" where
  "loadUserConfig env =
     (case fileRead env of
        Parsed config \<Rightarrow>
          if serviceUrl config = [] then Throw (ConfigError ''Missing serviceUrl in config file'')
          else if token config = [] then Throw (ConfigError ''Missing token in config file'')
          else if namespace config = [] then Throw (ConfigError ''Missing namespace in config file'')
          else Return (config\<lparr>namespace := normalizeNamespace (namespace config)\<rparr>)
      | ENOENT \<Rightarrow> createUserConfig env
      | ReadFailure n \<Rightarrow> Throw (ExternalError n))"

section \<open>PulsarManager.js\<close>

definition getNamespace :: "configEnv \<Rightarrow> string outcome" where
  "getNamespace env =
     (case loadUserConfig env of
        Return userConfig \<Rightarrow> Return (namespace userConfig)
      | Throw e \<Rightarrow> Throw e
      | Exit n \<Rightarrow> Exit n)"

definition getTopicName :: "configEnv \<Rightarrow> string list \<Rightarrow> string outcome" where
  "getTopicName env args =
     (case getNamespace env of
        Return ns \<Rightarrow>
          Return (ns @ (if truthy (getValue args Topic) then toString (getValue args Topic)
                        else defaultTopic))
      | Throw e \<Rightarrow> Throw e
      | Exit n \<Rightarrow> Exit n)"

text \<open>
  The manager's fields. \<open>producer\<close> and \<open>consumer\<close> are \<open>None\<close> while \<open>null\<close>; once set they
  hold a \<open>PulsarProducer\<close> or \<open>PulsarConsumer\<close>, of which only its own inner field matters
  here: whether the broker handle was created. \<open>client\<close> tells whether the client was
  created.
\<close>

record manager =
  producer :: "bool option"
  consumer :: "bool option"
  client :: bool

text \<open>
  \<open>PulsarProducer.close\<close> and \<open>PulsarConsumer.close\<close>: close the inner handle if there is
  one, then log. \<open>closeFails r\<close> is the error with which the broker's \<open>close\<close> of \<open>r\<close>
  rejects, if it does.
\<close>

definition producerClose :: "(resource \<Rightarrow> error option) \<Rightarrow> bool \<Rightarrow> unit run" where
  "producerClose closeFails inner =
     (if inner
      then (case closeFails ProducerRes of
              Some e \<Rightarrow> ([Close ProducerRes], Throw e)
            | None \<Rightarrow> ([Close ProducerRes, Log ''Producer closed''], Return ()))
      else ([], Return ()))"

definition consumerClose :: "(resource \<Rightarrow> error option) \<Rightarrow> bool \<Rightarrow> unit run" where
  "consumerClose closeFails inner =
     (if inner
      then (case closeFails ConsumerRes of
              Some e \<Rightarrow> ([Close ConsumerRes], Throw e)
            | None \<Rightarrow> ([Close ConsumerRes, Log ''Consumer closed''], Return ()))
      else ([], Return ()))"

definition cleanup :: "(resource \<Rightarrow> error option) \<Rightarrow> manager \<Rightarrow> unit run" where
  "cleanup closeFails m =
     andThen (case producer m of
                Some inner \<Rightarrow> producerClose closeFails inner
              | None \<Rightarrow> ([], Return ()))
       (\<lambda>_. andThen (case consumer m of
                       Some inner \<Rightarrow> consumerClose closeFails inner
                     | None \<Rightarrow> ([], Return ()))
          (\<lambda>_. if client m
                then (case closeFails ClientRes of
                        Some e \<Rightarrow> ([Close ClientRes], Throw e)
                      | None \<Rightarrow> ([Close ClientRes, Log ''Client closed''], Return ()))
                else ([], Return ())))"

section \<open>PulsarConsumer.js\<close>

text \<open>
  The broker client as the consumer sees it: whether \<open>createReader\<close>, \<open>seekTimestamp\<close>
  and \<open>subscribe\<close> reject, and what \<open>new Date()\<close> reads once the reader is created.
\<close>

record brokerEnv =
  createReaderFails :: "error option"
  seekFails :: "error option"
  subscribeFails :: "error option"
  now :: int

datatype handle = ReaderHandle | SubscriberHandle

text \<open>
  \<open>createReader\<close>. The reader is created first, at \<open>earliest\<close> for that string and at
  \<open>latest\<close> for everything else; a number is then compared with the clock (\<open>NaN < now\<close> is
  false) and sought when it is smaller.
\<close>

fun sinceText :: "sinceValue \<Rightarrow> string" where
  "sinceText SinceNull = ''null''"
| "sinceText (SinceString s) = s"
| "sinceText (SinceNumber n) = ''latest''"

definition createReader :: "brokerEnv \<Rightarrow> string \<Rightarrow> sinceValue \<Rightarrow> handle run" where
  "createReader env topicName sinceValue =
     (let startId = (case sinceValue of
                       SinceString s \<Rightarrow> if s = ''earliest'' then Earliest else Latest
                     | _ \<Rightarrow> Latest);
          created = CreateReader queueSize startId topicName
      in case createReaderFails env of
           Some e \<Rightarrow> ([created], Throw e)
         | None \<Rightarrow>
             (case sinceValue of
                SinceNumber None \<Rightarrow> ([created, LogReaderFrom ''latest''], Return ReaderHandle)
              | SinceNumber (Some t) \<Rightarrow>
                  if t < now env
                  then (case seekFails env of
                          Some e \<Rightarrow> ([created, SeekTimestamp t], Throw e)
                        | None \<Rightarrow>
                            ([created, SeekTimestamp t, LogReaderFromTimestamp t],
                             Return ReaderHandle))
                  else ([created, LogReaderFrom ''latest''], Return ReaderHandle)
              | _ \<Rightarrow> ([created, LogReaderFrom (sinceText sinceValue)], Return ReaderHandle)))"

definition createSubscriber :: "brokerEnv \<Rightarrow> string list \<Rightarrow> string \<Rightarrow> jsstr \<Rightarrow> handle run" where
  "createSubscriber env args topicName subscriptionType =
     (let subscribed =
            Subscribe ackMessage (getSubscriptionName args) ''Latest'' subscriptionType topicName
      in case subscribeFails env of
           Some e \<Rightarrow> ([subscribed], Throw e)
         | None \<Rightarrow>
             ([subscribed, LogConsumerCreated (getSubscriptionName args) subscriptionType],
              Return SubscriberHandle))"

text \<open>\<open>create\<close>: its third parameter \<open>readPosition\<close> is not read.\<close>

definition create ::
  "(string \<Rightarrow> number) \<Rightarrow> brokerEnv \<Rightarrow> string list \<Rightarrow> string \<Rightarrow> jsstr \<Rightarrow> handle run" where
  "create dateParse env args topicName subscriptionType =
     (if hasParam args Since
      then createReader env topicName (getSinceValue dateParse args)
      else createSubscriber env args topicName subscriptionType)"

text \<open>
  The receive loop. It has no exit of its own, so it is run against a finite script of
  what the broker answers to the successive \<open>receive\<close>/\<open>readNext\<close> calls: \<open>Fails e\<close> when
  the call rejects with \<open>e\<close>, \<open>Delivers msg ack\<close> when it yields \<open>msg\<close>, \<open>ack\<close> being the
  error with which \<open>acknowledge\<close> rejects, if it is called and does. When the script is
  used up the loop is \<open>Running\<close>, waiting in the call it has just made; \<open>Stopped e\<close> is the
  loop left by the error \<open>e\<close>.
\<close>

datatype answer = Fails error | Delivers message "error option"

datatype loopResult = Running | Stopped error

definition handleMessage :: "message \<Rightarrow> bool \<Rightarrow> error option \<Rightarrow> event list \<times> error option" where
  "handleMessage msg isReader ack =
     (if \<not> isReader then ([LogMessage msg, Acknowledge msg], ack) else ([LogMessage msg], None))"

fun receiveLoop :: "bool \<Rightarrow> answer list \<Rightarrow> event list \<times> loopResult" where
  "receiveLoop isReader [] = ([Receive isReader], Running)"
| "receiveLoop isReader (Fails err # script) =
     (if errorName err = ''TimeoutError''
      then (case receiveLoop isReader script of (t, r) \<Rightarrow> (Receive isReader # t, r))
      else ([Receive isReader], Stopped err))"
| "receiveLoop isReader (Delivers msg ack # script) =
     (case handleMessage msg isReader ack of
        (h, None) \<Rightarrow>
          (case receiveLoop isReader script of (t, r) \<Rightarrow> (Receive isReader # h @ t, r))
      | (h, Some err) \<Rightarrow>
          if errorName err = ''TimeoutError''
          then (case receiveLoop isReader script of (t, r) \<Rightarrow> (Receive isReader # h @ t, r))
          else (Receive isReader # h, Stopped err))"

definition receiveMessages :: "string list \<Rightarrow> answer list \<Rightarrow> event list \<times> loopResult" where
  "receiveMessages args script = receiveLoop (hasParam args Since) script"

section \<open>Notions used in the statements\<close>

text \<open>
  The checks of \<open>validateArgs\<close> run in a fixed order and the first failure is thrown. The
  errors of the checks that run before the read position is looked at, and of those that
  run before the compression type is looked at:
\<close>

fun checkedBeforeCompression :: "error \<Rightarrow> bool" where
  "checkedBeforeCompression (MissingRequiredFlag p m) = True"
| "checkedBeforeCompression (FlagNotAllowedInMode p m) = True"
| "checkedBeforeCompression (MissingFlagValue p) = True"
| "checkedBeforeCompression InvalidThreadCount = True"
| "checkedBeforeCompression e = False"

fun checkedBeforeReadPosition :: "error \<Rightarrow> bool" where
  "checkedBeforeReadPosition (InvalidCompressionType c) = True"
| "checkedBeforeReadPosition e = checkedBeforeCompression e"

text \<open>A flag that is present and outside the allow-list of the resolved mode.\<close>

definition outsideMode :: "string list \<Rightarrow> param \<Rightarrow> bool" where
  "outsideMode args k =
     (hasParam args k \<and> \<not> arrayIncludes (allowedParams (determineMode args)) k)"

text \<open>
  A case-insensitive match, as the specification words the compression check: the two
  strings have the same length and agree letter by letter up to case.
\<close>

definition equalsIgnoringCase :: "string \<Rightarrow> string \<Rightarrow> bool" where
  "equalsIgnoringCase a b = list_all2 (\<lambda>x y. lowerChar x = lowerChar y) a b"

definition matchesCompressionEnum :: "string \<Rightarrow> bool" where
  "matchesCompressionEnum v = (\<exists>e \<in> set validCompressionTypes. equalsIgnoringCase v e)"

text \<open>
  The namespace as the specification words its normalization: a trailing \<open>/\<close> is appended
  if absent, then the scheme \<open>persistent://\<close> is prefixed if absent.
\<close>

definition specNormalized :: "string \<Rightarrow> string" where
  "specNormalized ns =
     (let a = (if suffix ''/'' ns then ns else ns @ ''/'')
      in if prefix ''persistent://'' a then a else ''persistent://'' @ a)"

text \<open>
  For \<open>cleanup\<close>: the resources that have a broker handle, in the order in which
  \<open>cleanup\<close> visits them; the \<open>close\<close> calls a trace holds; the resources reached when
  closing a list in order and stopping after the first close that fails; and that failure.
\<close>

definition created :: "manager \<Rightarrow> resource list" where
  "created m =
     (if producer m = Some True then [ProducerRes] else []) @
     (if consumer m = Some True then [ConsumerRes] else []) @
     (if client m then [ClientRes] else [])"

fun closes :: "event list \<Rightarrow> resource list" where
  "closes [] = []"
| "closes (Close r # t) = r # closes t"
| "closes (e # t) = closes t"

fun attempted :: "(resource \<Rightarrow> error option) \<Rightarrow> resource list \<Rightarrow> resource list" where
  "attempted closeFails [] = []"
| "attempted closeFails (r # rs) =
     (case closeFails r of None \<Rightarrow> r # attempted closeFails rs | Some e \<Rightarrow> [r])"

fun firstFailure :: "(resource \<Rightarrow> error option) \<Rightarrow> resource list \<Rightarrow> error option" where
  "firstFailure closeFails [] = None"
| "firstFailure closeFails (r # rs) =
     (case closeFails r of None \<Rightarrow> firstFailure closeFails rs | Some e \<Rightarrow> Some e)"

text \<open>A broker whose producer fails to close, and one whose closes all succeed.\<close>

fun producerCloseFails :: "resource \<Rightarrow> error option" where
  "producerCloseFails ProducerRes = Some (ExternalError ''Error'')"
| "producerCloseFails r = None"

definition allCreated :: manager where
  "allCreated = \<lparr>producer = Some True, consumer = Some True, client = True\<rparr>"

definition nothingCreated :: manager where
  "nothingCreated = \<lparr>producer = None, consumer = None, client = False\<rparr>"

text \<open>Concrete collaborators for running the functions.\<close>

definition tenantConfig :: configEnv where
  "tenantConfig =
     \<lparr>fileRead = Parsed \<lparr>serviceUrl = ''pulsar://host:6650'', token = ''secret'',
                          namespace = ''tenant/ns''\<rparr>,
      promptAnswers = \<lparr>serviceUrl = [], token = [], namespace = []\<rparr>,
      writeOk = True\<rparr>"

definition brokerAt :: "int \<Rightarrow> brokerEnv" where
  "brokerAt clock =
     \<lparr>createReaderFails = None, seekFails = None, subscribeFails = None, now = clock\<rparr>"

definition sampleMessage :: message where
  "sampleMessage =
     \<lparr>messageId = ''1:0:0'', publishTimestamp = 1705744800000, data = ''Hello'',
      partitionKey = ''default''\<rparr>"

section \<open>Properties of the argument parser\<close>

subsection \<open>Presence of a flag\<close>

lemma indexOf_ge: "- 1 \<le> indexOf xs x"
  by (induction xs) (auto simp: Let_def)

lemma indexOf_absent: "indexOf xs x = - 1 \<longleftrightarrow> x \<notin> set xs"
proof (induction xs)
  case Nil
  show ?case by simp
next
  case (Cons y ys)
  have "- 1 \<le> indexOf ys x" by (rule indexOf_ge)
  with Cons show ?case by (auto simp: Let_def)
qed

lemma max_absent: "max (indexOf xs x) (indexOf xs y) = - 1 \<longleftrightarrow> x \<notin> set xs \<and> y \<notin> set xs"
  using indexOf_ge [of xs x] indexOf_ge [of xs y] indexOf_absent [of xs x] indexOf_absent [of xs y]
  by (auto simp: max_def)

lemma hasParam_iff:
  "hasParam args Send \<longleftrightarrow> ''--send'' \<in> set args"
  "hasParam args Since \<longleftrightarrow> ''--since'' \<in> set args"
  "hasParam args Key \<longleftrightarrow> ''--key'' \<in> set args"
  "hasParam args Topic \<longleftrightarrow> ''--topic'' \<in> set args"
  "hasParam args Type \<longleftrightarrow> ''--type'' \<in> set args"
  "hasParam args Help \<longleftrightarrow> ''--help'' \<in> set args \<or> ''-h'' \<in> set args"
  "hasParam args Version \<longleftrightarrow> ''--version'' \<in> set args \<or> ''-v'' \<in> set args"
  "hasParam args Compression \<longleftrightarrow> ''--compression'' \<in> set args \<or> ''-c'' \<in> set args"
  "hasParam args Threads \<longleftrightarrow> ''--threads'' \<in> set args \<or> ''-t'' \<in> set args"
  "hasParam args Subscription \<longleftrightarrow> ''--sub'' \<in> set args \<or> ''-s'' \<in> set args"
  by (simp_all add: hasParam_def indexOf_absent max_absent)

subsection \<open>Mode resolution\<close>

text \<open>
  Claim C4. The mode is a function of the argument list alone: \<open>PRODUCER\<close> (Send) whenever
  \<open>--send\<close> occurs in it, with or without \<open>--since\<close>; otherwise \<open>READER\<close> (ReadSince) when
  \<open>--since\<close> occurs; otherwise \<open>CONSUMER\<close> (Consume). \<open>determineMode\<close> is total and returns
  a mode, never an error.
\<close>

theorem determineMode_resolution:
  "determineMode args =
     (if ''--send'' \<in> set args then PRODUCER
      else if ''--since'' \<in> set args then READER
      else CONSUMER)"
  by (simp add: determineMode_def hasParam_iff)

lemma determineMode_examples:
  "determineMode [''--send'', ''hi'', ''--since'', ''earliest''] = PRODUCER"
  "determineMode [''--since'', ''earliest'', ''--send'', ''hi''] = PRODUCER"
  "determineMode [''--topic'', ''t'', ''--since'', ''earliest''] = READER"
  "determineMode [''--topic'', ''t''] = CONSUMER"
  "determineMode [] = CONSUMER"
  by code_simp+

subsection \<open>Subscription type\<close>

text \<open>
  Claim C6. Whenever \<open>--key\<close> occurs in the arguments, \<open>getSubscriptionType\<close> logs the
  switch and returns \<open>KeyShared\<close>, whatever \<open>--type\<close> asks for and whatever the mode is.
\<close>

theorem getSubscriptionType_key_forces_KeyShared:
  "''--key'' \<in> set args \<Longrightarrow>
   getSubscriptionType args =
     ([''Key specified, automatically switching to KeyShared mode''], Return ''KeyShared'')"
  by (simp add: getSubscriptionType_def hasParam_iff)

theorem getSubscriptionType_key_forces_KeyShared_witness:
  "''--key'' \<in> set [''--key'', ''k1'', ''--type'', ''Shared''] \<and>
   getSubscriptionType [''--key'', ''k1'', ''--type'', ''Shared''] =
     ([''Key specified, automatically switching to KeyShared mode''], Return ''KeyShared'')"
  using getSubscriptionType_key_forces_KeyShared [of "[''--key'', ''k1'', ''--type'', ''Shared'']"]
  by simp

text \<open>With \<open>--key k1\<close> alone the type is \<open>KeyShared\<close>; without it the default is \<open>Exclusive\<close>.\<close>

lemma getSubscriptionType_examples:
  "snd (getSubscriptionType [''--key'', ''k1'']) = Return ''KeyShared''"
  "snd (getSubscriptionType []) = Return ''Exclusive''"
  "snd (getSubscriptionType [''--type'', ''Shared'']) = Return ''Shared''"
  by code_simp+

subsection \<open>Thread count\<close>

text \<open>
  Claim C2. The check of \<open>--threads\<close> reads \<open>getThreads()\<close>, which has already replaced
  \<open>NaN\<close> and \<open>0\<close> by the default \<open>1\<close>. So \<open>--threads 0\<close> and \<open>--threads abc\<close> pass validation,
  with one thread, where the claim has them fail with \<open>InvalidThreadCount\<close>.
\<close>

theorem validateArgs_threads_zero_abc_accepted:
  "validateArgs dateParse [''--send'', ''hi'', ''--threads'', ''0''] = Return () \<and>
   getThreads [''--send'', ''hi'', ''--threads'', ''0''] = Some 1 \<and>
   validateArgs dateParse [''--send'', ''hi'', ''--threads'', ''abc''] = Return () \<and>
   getThreads [''--send'', ''hi'', ''--threads'', ''abc''] = Some 1"
  by code_simp

text \<open>The rest of the claim holds: \<open>4\<close> is accepted and read as 4, a negative count is refused.\<close>

lemma validateArgs_threads_examples:
  "validateArgs dateParse [''--send'', ''hi'', ''--threads'', ''4''] = Return ()"
  "getThreads [''--send'', ''hi'', ''--threads'', ''4''] = Some 4"
  "validateArgs dateParse [''--send'', ''hi'', ''--threads'', ''-2''] = Throw InvalidThreadCount"
  by code_simp+

text \<open>
  What \<open>getThreads\<close> returns is never \<open>NaN\<close> and never \<open>0\<close>, so the \<open>isNaN\<close> test of the
  check cannot succeed; the check refuses exactly the values that \<open>parseInt\<close> reads as a
  negative number.
\<close>

lemma getThreads_truthy: "truthyNum (getThreads args)"
  by (simp add: getThreads_def defaultThreads_def Let_def)

lemma validateSpecificArgs_threads:
  "validateSpecificArgs dateParse args = Throw InvalidThreadCount
     \<longleftrightarrow> lessNum (parseInt (getValue args Threads)) 0"
proof -
  have "lessNum (getThreads args) 1 \<longleftrightarrow> lessNum (parseInt (getValue args Threads)) 0"
    by (cases "parseInt (getValue args Threads)")
       (auto simp: getThreads_def defaultThreads_def Let_def)
  then show ?thesis
    using getThreads_truthy [of args]
    by (auto simp: validateSpecificArgs_def Let_def isNaN_def)
qed

subsection \<open>The order of the checks\<close>

lemma checkRequired_determineMode:
  "checkRequired args (determineMode args) (required (determineMode args)) = None"
  by (simp add: determineMode_def)

lemma paramKeys_all: "p \<in> set paramKeys"
  by (cases p) (simp_all add: paramKeys_def)

lemma checkAllowed_error:
  "checkAllowed args m ps = Some e \<Longrightarrow> \<exists>q. e = FlagNotAllowedInMode q m"
  by (induction ps) (auto split: if_splits)

lemma checkValues_error:
  "checkValues args ps = Some e \<Longrightarrow> \<exists>q. e = MissingFlagValue q"
  by (induction ps) (auto split: if_splits)

text \<open>
  Without \<open>help\<close> and \<open>version\<close> the process does not exit, and the required flag of the
  resolved mode is present by the way the mode is resolved.
\<close>

lemma validateArgs_no_exit:
  "\<not> hasParam args Help \<Longrightarrow> \<not> hasParam args Version \<Longrightarrow>
   validateArgs dateParse args =
     (case checkAllowed args (determineMode args) paramKeys of
        Some e \<Rightarrow> Throw e
      | None \<Rightarrow>
          (case checkValues args paramKeys of
             Some e \<Rightarrow> Throw e
           | None \<Rightarrow> validateSpecificArgs dateParse args))"
  by (simp add: validateArgs_def checkRequired_determineMode)

lemma getValue_present:
  "hasParam args p \<Longrightarrow> at args (params args p + 1) = Some v \<Longrightarrow> getValue args p = Str (trim v)"
  by (simp add: getValue_def hasParam_def)

subsection \<open>Flags outside the mode\<close>

text \<open>
  The loop over the keys is a search: it throws for the first key, in the order of
  \<open>paramKeys\<close>, whose flag is present and outside the mode.
\<close>

lemma checkAllowed_find:
  "checkAllowed args m ps =
     map_option (\<lambda>q. FlagNotAllowedInMode q m)
       (find (\<lambda>k. hasParam args k \<and> \<not> arrayIncludes (allowedParams m) k) ps)"
  by (induction ps) (simp_all add: hasParam_def)

text \<open>
  Claim C5, as stated, fails when \<open>--help\<close> (or \<open>--version\<close>) is among the arguments:
  \<open>validateArgs\<close> then exits with status 0 before any flag is checked, also when \<open>--since\<close>
  comes with \<open>--send\<close>.
\<close>

theorem validateArgs_help_precedes_mode_check:
  "hasParam [''--help'', ''--send'', ''hi'', ''--since'', ''earliest''] Since \<and>
   \<not> arrayIncludes
       (allowedParams (determineMode [''--help'', ''--send'', ''hi'', ''--since'', ''earliest'']))
       Since \<and>
   validateArgs dateParseSample [''--help'', ''--send'', ''hi'', ''--since'', ''earliest''] = Exit 0"
  by code_simp

text \<open>
  Claim C5, amended. When neither \<open>help\<close> nor \<open>version\<close> is present and some flag \<open>p\<close> is
  present that is not in \<open>required(mode) \<union> optional(mode) \<union> {help, version}\<close> for the
  resolved mode, \<open>validateArgs\<close> throws \<open>FlagNotAllowedInMode\<close> with the mode and the flag
  \<open>q\<close> that is the first such flag in the order of the keys: \<open>q\<close> is at some position \<open>i\<close>
  of \<open>paramKeys\<close>, it is present and outside the mode, and no key at an earlier position
  is.
\<close>

theorem validateArgs_rejects_flag_outside_mode:
  assumes "\<not> hasParam args Help" and "\<not> hasParam args Version"
    and "hasParam args p" and "\<not> arrayIncludes (allowedParams (determineMode args)) p"
  shows "\<exists>q. validateArgs dateParse args = Throw (FlagNotAllowedInMode q (determineMode args)) \<and>
             outsideMode args q \<and>
             find (outsideMode args) paramKeys = Some q \<and>
             (\<exists>i < length paramKeys. paramKeys ! i = q \<and>
                (\<forall>j < i. \<not> outsideMode args (paramKeys ! j)))"
proof -
  from assms(3,4) have "outsideMode args p" by (simp add: outsideMode_def)
  with paramKeys_all [of p] have "find (outsideMode args) paramKeys \<noteq> None"
    by (auto simp: find_None_iff)
  then obtain q where q: "find (outsideMode args) paramKeys = Some q" by blast
  have o: "outsideMode args = (\<lambda>k. hasParam args k \<and>
             \<not> arrayIncludes (allowedParams (determineMode args)) k)"
    by (rule ext) (simp add: outsideMode_def)
  from q have "checkAllowed args (determineMode args) paramKeys
                 = Some (FlagNotAllowedInMode q (determineMode args))"
    by (simp add: checkAllowed_find o)
  then have 1: "validateArgs dateParse args = Throw (FlagNotAllowedInMode q (determineMode args))"
    by (simp add: validateArgs_no_exit [OF assms(1,2)])
  from q have 2: "\<exists>i < length paramKeys. paramKeys ! i = q \<and> outsideMode args q \<and>
                   (\<forall>j < i. \<not> outsideMode args (paramKeys ! j))"
    by (auto simp: find_Some_iff)
  from 1 2 q show ?thesis by blast
qed

theorem validateArgs_rejects_flag_outside_mode_witness:
  "\<not> hasParam [''--since'', ''earliest'', ''--type'', ''Shared'', ''--key'', ''k1''] Help \<and>
   \<not> hasParam [''--since'', ''earliest'', ''--type'', ''Shared'', ''--key'', ''k1''] Version \<and>
   hasParam [''--since'', ''earliest'', ''--type'', ''Shared'', ''--key'', ''k1''] Type \<and>
   \<not> arrayIncludes
       (allowedParams
          (determineMode [''--since'', ''earliest'', ''--type'', ''Shared'', ''--key'', ''k1'']))
       Type \<and>
   find (outsideMode [''--since'', ''earliest'', ''--type'', ''Shared'', ''--key'', ''k1'']) paramKeys
     = Some Key \<and>
   validateArgs dateParseSample [''--since'', ''earliest'', ''--type'', ''Shared'', ''--key'', ''k1'']
     = Throw (FlagNotAllowedInMode Key READER) \<and>
   \<not> hasParam [''--send'', ''hi'', ''--since'', ''earliest''] Help \<and>
   \<not> hasParam [''--send'', ''hi'', ''--since'', ''earliest''] Version \<and>
   hasParam [''--send'', ''hi'', ''--since'', ''earliest''] Since \<and>
   \<not> arrayIncludes (allowedParams (determineMode [''--send'', ''hi'', ''--since'', ''earliest''])) Since \<and>
   validateArgs dateParseSample [''--send'', ''hi'', ''--since'', ''earliest'']
     = Throw (FlagNotAllowedInMode Since PRODUCER)"
proof -
  let ?a = "[''--since'', ''earliest'', ''--type'', ''Shared'', ''--key'', ''k1'']"
  let ?b = "[''--send'', ''hi'', ''--since'', ''earliest'']"
  have a: "\<not> hasParam ?a Help" "\<not> hasParam ?a Version" "hasParam ?a Type"
    "\<not> arrayIncludes (allowedParams (determineMode ?a)) Type"
    by code_simp+
  have b: "\<not> hasParam ?b Help" "\<not> hasParam ?b Version" "hasParam ?b Since"
    "\<not> arrayIncludes (allowedParams (determineMode ?b)) Since"
    by code_simp+
  have ma: "determineMode ?a = READER" and mb: "determineMode ?b = PRODUCER" by code_simp+
  have fa: "find (outsideMode ?a) paramKeys = Some Key" by code_simp
  have fb: "find (outsideMode ?b) paramKeys = Some Since" by code_simp
  from validateArgs_rejects_flag_outside_mode [OF a, of dateParseSample] fa ma
  have 1: "validateArgs dateParseSample ?a = Throw (FlagNotAllowedInMode Key READER)" by auto
  from validateArgs_rejects_flag_outside_mode [OF b, of dateParseSample] fb mb
  have 2: "validateArgs dateParseSample ?b = Throw (FlagNotAllowedInMode Since PRODUCER)" by auto
  from a b fa 1 2 show ?thesis by blast
qed

text \<open>
  \<open>--send\<close> with \<open>--since X\<close>: the flag named is \<open>since\<close>, the mode \<open>PRODUCER\<close>. With two
  flags outside the mode the one named is the first in the order of the keys, not of the
  arguments.
\<close>

lemma validateArgs_send_since:
  "validateArgs dateParse [''--send'', ''hi'', ''--since'', ''earliest'']
     = Throw (FlagNotAllowedInMode Since PRODUCER)"
  "validateArgs dateParse [''--since'', ''earliest'', ''--type'', ''Shared'', ''--key'', ''k1'']
     = Throw (FlagNotAllowedInMode Key READER)"
  by code_simp+

subsection \<open>The value of --topic\<close>

text \<open>
  Claim C1, as stated, fails in three ways. The value is trimmed before it is compared,
  so \<open>" latest"\<close>, which is not exactly \<open>latest\<close>, passes; with \<open>--help\<close> the process exits
  with status 0 and nothing is thrown; and a check that runs earlier throws its own
  error, not \<open>Invalid read position\<close>.
\<close>

theorem validateArgs_topic_value_not_always_rejected:
  "hasParam [''--topic'', '' latest''] Topic \<and>
   at [''--topic'', '' latest''] (params [''--topic'', '' latest''] Topic + 1) = Some '' latest'' \<and>
   '' latest'' \<noteq> ''earliest'' \<and> '' latest'' \<noteq> ''latest'' \<and>
   validateArgs dateParseSample [''--topic'', '' latest''] = Return () \<and>
   validateArgs dateParseSample [''--help'', ''--topic'', ''orders''] = Exit 0 \<and>
   validateArgs dateParseSample [''--send'', ''hi'', ''--threads'', ''-1'', ''--topic'', ''orders'']
     = Throw InvalidThreadCount"
  by code_simp

lemma validateSpecificArgs_topic:
  assumes "getValue args Topic = Str w" and "w \<noteq> []" and "w \<noteq> ''earliest''" and "w \<noteq> ''latest''"
  shows "\<exists>e. validateSpecificArgs dateParse args = Throw e \<and>
             (e = InvalidReadPosition w \<or> checkedBeforeReadPosition e)"
  using assms
  by (simp add: validateSpecificArgs_def Let_def arrayIncludes_def validReadPositions_def)

text \<open>
  Claim C1, amended. When neither \<open>help\<close> nor \<open>version\<close> is present and \<open>--topic\<close> is
  followed by a value that, once trimmed, is not empty and is neither \<open>earliest\<close> nor
  \<open>latest\<close>, \<open>validateArgs\<close> throws, in every mode: \<open>InvalidReadPosition\<close> with the trimmed
  value, unless a check that runs earlier (flags of the mode, missing values, threads,
  compression) has failed, in which case it throws that check's error.
\<close>

theorem validateArgs_topic_name_rejected:
  assumes "\<not> hasParam args Help" and "\<not> hasParam args Version"
    and "hasParam args Topic" and "at args (params args Topic + 1) = Some v"
    and "trim v \<noteq> []" and "trim v \<noteq> ''earliest''" and "trim v \<noteq> ''latest''"
  shows "\<exists>e. validateArgs dateParse args = Throw e \<and>
             (e = InvalidReadPosition (trim v) \<or> checkedBeforeReadPosition e)"
proof (cases "checkAllowed args (determineMode args) paramKeys")
  case (Some e)
  then show ?thesis
    using checkAllowed_error [OF Some] by (auto simp: validateArgs_no_exit [OF assms(1,2)])
next
  case None
  note allowed = None
  show ?thesis
  proof (cases "checkValues args paramKeys")
    case (Some e)
    then show ?thesis
      using checkValues_error [OF Some] allowed
      by (auto simp: validateArgs_no_exit [OF assms(1,2)])
  next
    case None
    with allowed have "validateArgs dateParse args = validateSpecificArgs dateParse args"
      by (simp add: validateArgs_no_exit [OF assms(1,2)])
    with validateSpecificArgs_topic [OF getValue_present [OF assms(3,4)] assms(5,6,7), of dateParse]
    show ?thesis by simp
  qed
qed

theorem validateArgs_topic_name_rejected_witness:
  "\<not> hasParam [''--send'', ''Hello'', ''--topic'', ''myTopic''] Help \<and>
   \<not> hasParam [''--send'', ''Hello'', ''--topic'', ''myTopic''] Version \<and>
   hasParam [''--send'', ''Hello'', ''--topic'', ''myTopic''] Topic \<and>
   at [''--send'', ''Hello'', ''--topic'', ''myTopic'']
      (params [''--send'', ''Hello'', ''--topic'', ''myTopic''] Topic + 1) = Some ''myTopic'' \<and>
   trim ''myTopic'' = ''myTopic'' \<and>
   (\<exists>e. validateArgs dateParseSample [''--send'', ''Hello'', ''--topic'', ''myTopic''] = Throw e \<and>
        (e = InvalidReadPosition ''myTopic'' \<or> checkedBeforeReadPosition e))"
proof -
  let ?a = "[''--send'', ''Hello'', ''--topic'', ''myTopic'']"
  have h: "\<not> hasParam ?a Help" "\<not> hasParam ?a Version" "hasParam ?a Topic"
    "at ?a (params ?a Topic + 1) = Some ''myTopic''"
    by code_simp+
  have t: "trim ''myTopic'' = ''myTopic''" by code_simp
  have n: "trim ''myTopic'' \<noteq> []" "trim ''myTopic'' \<noteq> ''earliest''" "trim ''myTopic'' \<noteq> ''latest''"
    by (simp_all add: t)
  from validateArgs_topic_name_rejected [OF h n, of dateParseSample] h t
  show ?thesis by simp
qed

text \<open>Ordinary topic names are refused in each of the three modes.\<close>

lemma validateArgs_topic_examples:
  "validateArgs dateParse [''--send'', ''Hello'', ''--topic'', ''myTopic'']
     = Throw (InvalidReadPosition ''myTopic'')"
  "validateArgs dateParse [''--topic'', ''orders''] = Throw (InvalidReadPosition ''orders'')"
  "validateArgs dateParse [''--topic'', ''myTopic'', ''--since'', ''earliest'']
     = Throw (InvalidReadPosition ''myTopic'')"
  "validateArgs dateParse [''--topic'', ''latest''] = Return ()"
  by code_simp+

subsection \<open>Compression type\<close>

lemma upperChar_upperChar: "upperChar (upperChar c) = upperChar c"
  using nat_of_char_less_256 [of c] by (auto simp: upperChar_def Let_def)

lemma lowerChar_upperChar: "lowerChar (upperChar c) = lowerChar c"
  using nat_of_char_less_256 [of c] by (auto simp: upperChar_def lowerChar_def Let_def)

lemma upperChar_lowerChar: "upperChar (lowerChar c) = upperChar c"
  using nat_of_char_less_256 [of c] by (auto simp: upperChar_def lowerChar_def Let_def)

lemma toUpperCase_idem: "toUpperCase (toUpperCase s) = toUpperCase s"
  by (simp add: toUpperCase_def upperChar_upperChar)

lemma toUpperCase_Nil_iff: "toUpperCase s = [] \<longleftrightarrow> s = []"
  by (simp add: toUpperCase_def)

lemma equalsIgnoringCase_toUpperCase: "equalsIgnoringCase s (toUpperCase s)"
  by (induction s) (simp_all add: equalsIgnoringCase_def toUpperCase_def lowerChar_upperChar)

lemma equalsIgnoringCase_upper:
  "equalsIgnoringCase a b \<Longrightarrow> toUpperCase a = toUpperCase b"
  unfolding equalsIgnoringCase_def toUpperCase_def
proof (induction a b rule: list_all2_induct)
  case Nil
  show ?case by simp
next
  case (Cons x xs y ys)
  from Cons(1) have "upperChar (lowerChar x) = upperChar (lowerChar y)" by simp
  then have "upperChar x = upperChar y" by (simp add: upperChar_lowerChar)
  with Cons show ?case by simp
qed

lemma validCompressionTypes_upper:
  "e \<in> set validCompressionTypes \<Longrightarrow> toUpperCase e = e"
  unfolding validCompressionTypes_def
  by (auto simp: toUpperCase_def upperChar_def)

text \<open>
  The test of the code, membership of the upper-cased value in the table, is the
  case-insensitive match of the specification.
\<close>

lemma compression_enum_refines:
  "arrayIncludes validCompressionTypes (toUpperCase s) \<longleftrightarrow> matchesCompressionEnum s"
proof
  assume "arrayIncludes validCompressionTypes (toUpperCase s)"
  then show "matchesCompressionEnum s"
    using equalsIgnoringCase_toUpperCase [of s]
    by (auto simp: arrayIncludes_def matchesCompressionEnum_def)
next
  assume "matchesCompressionEnum s"
  then obtain e where e: "e \<in> set validCompressionTypes" "equalsIgnoringCase s e"
    by (auto simp: matchesCompressionEnum_def)
  from equalsIgnoringCase_upper [OF e(2)] validCompressionTypes_upper [OF e(1)]
  have "toUpperCase s = e" by simp
  with e(1) show "arrayIncludes validCompressionTypes (toUpperCase s)"
    by (simp add: arrayIncludes_def)
qed

lemma getCompression_present:
  assumes "hasParam args Compression" and "at args (params args Compression + 1) = Some v"
  shows "getCompression args = toUpperCase (if trim v = [] then defaultCompression else trim v)"
  by (simp add: getCompression_def getValue_present [OF assms])

lemma default_in_enum: "arrayIncludes validCompressionTypes (toUpperCase defaultCompression)"
  by code_simp

lemma validateSpecificArgs_compression_ok:
  assumes "arrayIncludes validCompressionTypes (toUpperCase (getCompression args))"
  shows "validateSpecificArgs dateParse args \<noteq> Throw (InvalidCompressionType x)"
  using assms by (simp add: validateSpecificArgs_def Let_def)

lemma validateSpecificArgs_compression_bad:
  assumes "getCompression args \<noteq> []"
    and "\<not> arrayIncludes validCompressionTypes (toUpperCase (getCompression args))"
  shows "\<exists>e. validateSpecificArgs dateParse args = Throw e \<and>
             (e = InvalidCompressionType (getCompression args) \<or> checkedBeforeCompression e)"
  using assms by (simp add: validateSpecificArgs_def Let_def)

lemma validateArgs_compression_accepted:
  assumes "\<not> hasParam args Help" and "\<not> hasParam args Version"
    and "hasParam args Compression" and "at args (params args Compression + 1) = Some v"
    and ok: "trim v = [] \<or> matchesCompressionEnum (trim v)"
  shows "validateArgs dateParse args \<noteq> Throw (InvalidCompressionType x) \<and>
         getCompression args \<in> set validCompressionTypes"
proof -
  note gc = getCompression_present [OF assms(3,4)]
  have inc: "arrayIncludes validCompressionTypes (getCompression args)"
    using ok default_in_enum by (auto simp: gc compression_enum_refines)
  then have "arrayIncludes validCompressionTypes (toUpperCase (getCompression args))"
    by (simp add: gc toUpperCase_idem)
  from validateSpecificArgs_compression_ok [OF this]
  have "validateArgs dateParse args \<noteq> Throw (InvalidCompressionType x)"
    using checkAllowed_error checkValues_error
    by (fastforce simp: validateArgs_no_exit [OF assms(1,2)] split: option.splits)
  with inc show ?thesis by (simp add: arrayIncludes_def)
qed

lemma validateArgs_compression_refused:
  assumes "\<not> hasParam args Help" and "\<not> hasParam args Version"
    and "hasParam args Compression" and "at args (params args Compression + 1) = Some v"
    and bad: "trim v \<noteq> []" "\<not> matchesCompressionEnum (trim v)"
  shows "\<exists>e. validateArgs dateParse args = Throw e \<and>
             (e = InvalidCompressionType (toUpperCase (trim v)) \<or> checkedBeforeCompression e)"
proof -
  have g: "getCompression args = toUpperCase (trim v)"
    using bad by (simp add: getCompression_present [OF assms(3,4)])
  have 1: "getCompression args \<noteq> []" using bad by (simp add: g toUpperCase_Nil_iff)
  have 2: "\<not> arrayIncludes validCompressionTypes (toUpperCase (getCompression args))"
    using bad by (simp add: g toUpperCase_idem compression_enum_refines)
  from validateSpecificArgs_compression_bad [OF 1 2, of dateParse]
  obtain e where e: "validateSpecificArgs dateParse args = Throw e"
    "e = InvalidCompressionType (toUpperCase (trim v)) \<or> checkedBeforeCompression e"
    by (auto simp: g)
  show ?thesis
  proof (cases "checkAllowed args (determineMode args) paramKeys")
    case (Some a)
    then show ?thesis
      using checkAllowed_error [OF Some] by (auto simp: validateArgs_no_exit [OF assms(1,2)])
  next
    case None
    note allowed = None
    show ?thesis
    proof (cases "checkValues args paramKeys")
      case (Some a)
      then show ?thesis
        using checkValues_error [OF Some] allowed
        by (auto simp: validateArgs_no_exit [OF assms(1,2)])
    next
      case None
      with allowed e show ?thesis
        by (simp add: validateArgs_no_exit [OF assms(1,2)])
    qed
  qed
qed

text \<open>
  Claim C8, as stated, fails in both directions. A value of white space only matches no
  member of the enum, yet validation succeeds (the trimmed value is empty and the default
  \<open>NONE\<close> is taken); and \<open>--compression lz4\<close> on its own matches \<open>LZ4\<close>, yet validation
  fails, since without \<open>--send\<close> the mode is \<open>CONSUMER\<close>, which does not allow the flag.
\<close>

theorem validateArgs_compression_not_iff_match:
  "hasParam [''--send'', ''hi'', ''--compression'', '' ''] Compression \<and>
   \<not> matchesCompressionEnum '' '' \<and>
   validateArgs dateParseSample [''--send'', ''hi'', ''--compression'', '' ''] = Return () \<and>
   hasParam [''--compression'', ''lz4''] Compression \<and>
   matchesCompressionEnum ''lz4'' \<and>
   validateArgs dateParseSample [''--compression'', ''lz4'']
     = Throw (FlagNotAllowedInMode Compression CONSUMER)"
  by code_simp

text \<open>
  Claim C8, amended. Let \<open>--compression\<close> be followed by a value \<open>v\<close>, with neither \<open>help\<close>
  nor \<open>version\<close> present. \<open>getCompression\<close> returns the upper-cased trimmed value, or
  \<open>NONE\<close> when the trimmed value is empty. If the trimmed value is empty or matches a
  member of \<open>{NONE, LZ4, ZLIB, ZSTD, SNAPPY}\<close> case-insensitively, validation does not fail
  with \<open>InvalidCompressionType\<close> and \<open>getCompression\<close> is a member of the enum. Otherwise
  validation fails: with \<open>InvalidCompressionType\<close>, unless a check that runs earlier (flags
  of the mode, missing values, threads) has failed.
\<close>

theorem validateArgs_compression:
  assumes "\<not> hasParam args Help" and "\<not> hasParam args Version"
    and "hasParam args Compression" and "at args (params args Compression + 1) = Some v"
  shows "getCompression args = toUpperCase (if trim v = [] then defaultCompression else trim v) \<and>
         (trim v = [] \<or> matchesCompressionEnum (trim v) \<longrightarrow>
            (\<forall>x. validateArgs dateParse args \<noteq> Throw (InvalidCompressionType x)) \<and>
            getCompression args \<in> set validCompressionTypes) \<and>
         (trim v \<noteq> [] \<and> \<not> matchesCompressionEnum (trim v) \<longrightarrow>
            (\<exists>e. validateArgs dateParse args = Throw e \<and>
                 (e = InvalidCompressionType (toUpperCase (trim v)) \<or> checkedBeforeCompression e)))"
  using getCompression_present [OF assms(3,4)]
    validateArgs_compression_accepted [OF assms, of dateParse]
    validateArgs_compression_refused [OF assms, of dateParse]
  by blast

theorem validateArgs_compression_witness:
  "\<not> hasParam [''--send'', ''hi'', ''--compression'', ''lz4''] Help \<and>
   \<not> hasParam [''--send'', ''hi'', ''--compression'', ''lz4''] Version \<and>
   hasParam [''--send'', ''hi'', ''--compression'', ''lz4''] Compression \<and>
   at [''--send'', ''hi'', ''--compression'', ''lz4'']
      (params [''--send'', ''hi'', ''--compression'', ''lz4''] Compression + 1) = Some ''lz4'' \<and>
   matchesCompressionEnum (trim ''lz4'') \<and>
   getCompression [''--send'', ''hi'', ''--compression'', ''lz4''] = ''LZ4'' \<and>
   (\<forall>x. validateArgs dateParseSample [''--send'', ''hi'', ''--compression'', ''lz4'']
          \<noteq> Throw (InvalidCompressionType x)) \<and>
   \<not> hasParam [''--send'', ''hi'', ''-c'', ''FOO''] Help \<and>
   \<not> hasParam [''--send'', ''hi'', ''-c'', ''FOO''] Version \<and>
   hasParam [''--send'', ''hi'', ''-c'', ''FOO''] Compression \<and>
   at [''--send'', ''hi'', ''-c'', ''FOO''] (params [''--send'', ''hi'', ''-c'', ''FOO''] Compression + 1)
     = Some ''FOO'' \<and>
   trim ''FOO'' \<noteq> [] \<and> \<not> matchesCompressionEnum (trim ''FOO'') \<and>
   (\<exists>e. validateArgs dateParseSample [''--send'', ''hi'', ''-c'', ''FOO''] = Throw e \<and>
        (e = InvalidCompressionType (toUpperCase (trim ''FOO'')) \<or> checkedBeforeCompression e))"
proof -
  let ?a = "[''--send'', ''hi'', ''--compression'', ''lz4'']"
  let ?b = "[''--send'', ''hi'', ''-c'', ''FOO'']"
  have a: "\<not> hasParam ?a Help" "\<not> hasParam ?a Version" "hasParam ?a Compression"
    "at ?a (params ?a Compression + 1) = Some ''lz4''"
    by code_simp+
  have b: "\<not> hasParam ?b Help" "\<not> hasParam ?b Version" "hasParam ?b Compression"
    "at ?b (params ?b Compression + 1) = Some ''FOO''"
    by code_simp+
  have ma: "matchesCompressionEnum (trim ''lz4'')" by code_simp
  have ga: "getCompression ?a = ''LZ4''" by code_simp
  have mb: "trim ''FOO'' \<noteq> []" "\<not> matchesCompressionEnum (trim ''FOO'')" by code_simp+
  from validateArgs_compression [OF a, of dateParseSample] ma
  have ra: "\<forall>x. validateArgs dateParseSample ?a \<noteq> Throw (InvalidCompressionType x)"
    by blast
  from validateArgs_compression [OF b, of dateParseSample] mb
  have rb: "\<exists>e. validateArgs dateParseSample ?b = Throw e \<and>
        (e = InvalidCompressionType (toUpperCase (trim ''FOO'')) \<or> checkedBeforeCompression e)"
    by blast
  from a b ma ga mb ra rb show ?thesis by blast
qed

text \<open>The two values of the specification, given with \<open>--send\<close>.\<close>

lemma validateArgs_compression_examples:
  "validateArgs dateParse [''--send'', ''hi'', ''--compression'', ''lz4''] = Return ()"
  "getCompression [''--send'', ''hi'', ''--compression'', ''lz4''] = ''LZ4''"
  "validateArgs dateParse [''--send'', ''hi'', ''--compression'', ''FOO'']
     = Throw (InvalidCompressionType ''FOO'')"
  by code_simp+

section \<open>Properties of the session\<close>

subsection \<open>Topic address\<close>

lemma startsWith_prefix: "startsWith s p \<longleftrightarrow> prefix p s"
proof
  assume "startsWith s p"
  then have "s = p @ drop (length p) s"
    by (metis append_take_drop_id startsWith_def)
  then show "prefix p s" by (metis prefixI)
next
  assume "prefix p s"
  then show "startsWith s p" by (auto simp: prefix_def startsWith_def)
qed

lemma endsWith_suffix: "endsWith s p \<longleftrightarrow> suffix p s"
proof
  assume "endsWith s p"
  then have "s = take (length s - length p) s @ p"
    by (metis append_take_drop_id endsWith_def)
  then show "suffix p s" by (metis suffixI)
next
  assume "suffix p s"
  then show "endsWith s p" by (auto simp: suffix_def endsWith_def)
qed

lemma normalizeNamespace_spec: "normalizeNamespace ns = specNormalized ns"
  by (auto simp: normalizeNamespace_def specNormalized_def startsWith_prefix endsWith_suffix Let_def)

lemma getValue_absent: "\<not> hasParam args p \<Longrightarrow> getValue args p = Null"
  by (simp add: getValue_def hasParam_def)

lemma getNamespace_parsed:
  assumes "fileRead env = Parsed config"
    and "serviceUrl config \<noteq> []" and "token config \<noteq> []" and "namespace config \<noteq> []"
  shows "getNamespace env = Return (specNormalized (namespace config))"
  using assms by (simp add: getNamespace_def loadUserConfig_def normalizeNamespace_spec)

text \<open>
  Claim C9. With a complete persisted configuration, the topic name is the namespace,
  with \<open>/\<close> appended if absent and then \<open>persistent://\<close> prefixed if absent, followed by
  the suffix: the (trimmed) value of \<open>--topic\<close>, or the default \<open>pulsar_companion\<close> when the
  flag is absent.
\<close>

theorem getTopicName_address:
  assumes "fileRead env = Parsed config"
    and "serviceUrl config \<noteq> []" and "token config \<noteq> []" and "namespace config \<noteq> []"
  shows "(\<not> hasParam args Topic \<longrightarrow>
            getTopicName env args = Return (specNormalized (namespace config) @ defaultTopic)) \<and>
         (hasParam args Topic \<and> at args (params args Topic + 1) = Some v \<and> trim v \<noteq> [] \<longrightarrow>
            getTopicName env args = Return (specNormalized (namespace config) @ trim v))"
  by (simp add: getTopicName_def getNamespace_parsed [OF assms] getValue_absent getValue_present)

theorem getTopicName_address_witness:
  "fileRead tenantConfig
     = Parsed \<lparr>serviceUrl = ''pulsar://host:6650'', token = ''secret'', namespace = ''tenant/ns''\<rparr> \<and>
   hasParam [''--topic'', ''orders''] Topic \<and>
   at [''--topic'', ''orders''] (params [''--topic'', ''orders''] Topic + 1) = Some ''orders'' \<and>
   trim ''orders'' = ''orders'' \<and>
   specNormalized ''tenant/ns'' = ''persistent://tenant/ns/'' \<and>
   getTopicName tenantConfig [''--topic'', ''orders''] = Return ''persistent://tenant/ns/orders'' \<and>
   \<not> hasParam [] Topic \<and>
   getTopicName tenantConfig [] = Return ''persistent://tenant/ns/pulsar_companion''"
proof -
  let ?c = "\<lparr>serviceUrl = ''pulsar://host:6650'', token = ''secret'', namespace = ''tenant/ns''\<rparr>"
  let ?a = "[''--topic'', ''orders'']"
  have f: "fileRead tenantConfig = Parsed ?c" by (simp add: tenantConfig_def)
  have c: "serviceUrl ?c \<noteq> []" "token ?c \<noteq> []" "namespace ?c \<noteq> []" by simp_all
  have h: "hasParam ?a Topic" "at ?a (params ?a Topic + 1) = Some ''orders''" by code_simp+
  have t: "trim ''orders'' = ''orders''" by code_simp
  have n: "specNormalized ''tenant/ns'' = ''persistent://tenant/ns/''" by code_simp
  have e: "\<not> hasParam [] Topic" by code_simp
  from getTopicName_address [OF f c, of ?a "''orders''"] h t n
  have 1: "getTopicName tenantConfig ?a = Return ''persistent://tenant/ns/orders''" by simp
  from getTopicName_address [OF f c, of "[]" "''orders''"] e n
  have 2: "getTopicName tenantConfig [] = Return ''persistent://tenant/ns/pulsar_companion''"
    by (simp add: defaultTopic_def)
  from f h t n e 1 2 show ?thesis by simp
qed

text \<open>The normalization leaves a namespace alone that already has both parts.\<close>

lemma normalizeNamespace_examples:
  "normalizeNamespace ''tenant/ns'' = ''persistent://tenant/ns/''"
  "normalizeNamespace ''tenant/ns/'' = ''persistent://tenant/ns/''"
  "normalizeNamespace ''persistent://tenant/ns'' = ''persistent://tenant/ns/''"
  "normalizeNamespace ''persistent://tenant/ns/'' = ''persistent://tenant/ns/''"
  by code_simp+

subsection \<open>Cleanup\<close>

text \<open>
  Claim C3, as stated, fails where it says that all closes are attempted after an earlier
  one has failed: \<open>cleanup\<close> awaits the three closes in sequence with no handler, so the
  first rejection leaves \<open>cleanup\<close>. With a producer whose \<open>close\<close> rejects, the consumer and
  the client are not closed.
\<close>

theorem cleanup_stops_at_first_failure:
  "cleanup producerCloseFails allCreated = ([Close ProducerRes], Throw (ExternalError ''Error''))"
  by code_simp

text \<open>
  Claim C3, amended. \<open>cleanup\<close> closes the producer, then the consumer or reader, then the
  client, each only if it was created, in this order, and stops at the first close that
  fails, throwing its error; when no close fails all of them are closed and \<open>cleanup\<close>
  returns. With nothing created it performs no operation and raises no error.
\<close>

theorem cleanup_closes_in_order:
  "closes (fst (cleanup closeFails m)) = attempted closeFails (created m) \<and>
   snd (cleanup closeFails m) =
     (case firstFailure closeFails (created m) of None \<Rightarrow> Return () | Some e \<Rightarrow> Throw e) \<and>
   cleanup closeFails nothingCreated = ([], Return ())"
proof -
  have 1: "closes (fst (cleanup closeFails m)) = attempted closeFails (created m)"
    by (auto simp: cleanup_def andThen_def created_def producerClose_def consumerClose_def
             split: option.splits)
  have 2: "snd (cleanup closeFails m) =
     (case firstFailure closeFails (created m) of None \<Rightarrow> Return () | Some e \<Rightarrow> Throw e)"
    by (auto simp: cleanup_def andThen_def created_def producerClose_def consumerClose_def
             split: option.splits)
  have 3: "cleanup closeFails nothingCreated = ([], Return ())"
    by (simp add: cleanup_def andThen_def nothingCreated_def)
  from 1 2 3 show ?thesis by simp
qed

lemma cleanup_examples:
  "cleanup (\<lambda>r. None) allCreated =
     ([Close ProducerRes, Log ''Producer closed'', Close ConsumerRes, Log ''Consumer closed'',
       Close ClientRes, Log ''Client closed''], Return ())"
  "cleanup (\<lambda>r. None) \<lparr>producer = None, consumer = Some True, client = True\<rparr> =
     ([Close ConsumerRes, Log ''Consumer closed'', Close ClientRes, Log ''Client closed''],
      Return ())"
  "cleanup (\<lambda>r. None) \<lparr>producer = Some False, consumer = None, client = True\<rparr> =
     ([Close ClientRes, Log ''Client closed''], Return ())"
  by (simp_all add: cleanup_def andThen_def allCreated_def producerClose_def consumerClose_def)

subsection \<open>Start of the positional reader\<close>

lemma getSinceValue_number_hasParam:
  "getSinceValue dateParse args = SinceNumber n \<Longrightarrow> hasParam args Since"
  by (auto simp: getSinceValue_def getValue_def hasParam_def split: jsstr.splits if_splits)

text \<open>
  Claim C7. Let the value of \<open>--since\<close> resolve to the timestamp \<open>t\<close>, and let the broker
  create the reader. The reader is created at \<open>latest\<close>. If \<open>t\<close> is before the clock read
  after the creation, \<open>seekTimestamp t\<close> is called next (and when it succeeds the reader is
  returned). Otherwise no seek is performed: the starting point \<open>latest\<close> is logged and
  the reader is returned, with no error.
\<close>

theorem create_reader_from_timestamp:
  assumes "getSinceValue dateParse args = SinceNumber (Some t)"
    and "createReaderFails env = None"
  shows "(t < now env \<longrightarrow>
            take 2 (fst (create dateParse env args topicName subscriptionType))
              = [CreateReader queueSize Latest topicName, SeekTimestamp t] \<and>
            (seekFails env = None \<longrightarrow>
               create dateParse env args topicName subscriptionType
                 = ([CreateReader queueSize Latest topicName, SeekTimestamp t,
                     LogReaderFromTimestamp t], Return ReaderHandle))) \<and>
         (\<not> t < now env \<longrightarrow>
            create dateParse env args topicName subscriptionType
              = ([CreateReader queueSize Latest topicName, LogReaderFrom ''latest''],
                 Return ReaderHandle))"
  using assms getSinceValue_number_hasParam [OF assms(1)]
  by (auto simp: create_def createReader_def Let_def split: option.splits)

theorem create_reader_from_timestamp_witness:
  "getSinceValue dateParseSample [''--since'', ''2999-01-01T00:00:00Z'']
     = SinceNumber (Some 32472144000000) \<and>
   createReaderFails (brokerAt 1705744800000) = None \<and>
   \<not> 32472144000000 < now (brokerAt 1705744800000) \<and>
   create dateParseSample (brokerAt 1705744800000) [''--since'', ''2999-01-01T00:00:00Z'']
       ''persistent://tenant/ns/pulsar_companion'' Null
     = ([CreateReader 1000 Latest ''persistent://tenant/ns/pulsar_companion'',
         LogReaderFrom ''latest''], Return ReaderHandle) \<and>
   getSinceValue dateParseSample [''--since'', ''2024-01-20T10:00:00Z'']
     = SinceNumber (Some 1705744800000) \<and>
   createReaderFails (brokerAt 32472144000000) = None \<and>
   seekFails (brokerAt 32472144000000) = None \<and>
   1705744800000 < now (brokerAt 32472144000000) \<and>
   create dateParseSample (brokerAt 32472144000000) [''--since'', ''2024-01-20T10:00:00Z'']
       ''persistent://tenant/ns/pulsar_companion'' Null
     = ([CreateReader 1000 Latest ''persistent://tenant/ns/pulsar_companion'',
         SeekTimestamp 1705744800000, LogReaderFromTimestamp 1705744800000],
        Return ReaderHandle)"
proof -
  let ?future = "[''--since'', ''2999-01-01T00:00:00Z'']"
  let ?past = "[''--since'', ''2024-01-20T10:00:00Z'']"
  let ?topic = "''persistent://tenant/ns/pulsar_companion''"
  have f: "getSinceValue dateParseSample ?future = SinceNumber (Some 32472144000000)"
    by code_simp
  have p: "getSinceValue dateParseSample ?past = SinceNumber (Some 1705744800000)"
    by code_simp
  have b: "createReaderFails (brokerAt 1705744800000) = None"
    "createReaderFails (brokerAt 32472144000000) = None"
    "seekFails (brokerAt 32472144000000) = None"
    "now (brokerAt 1705744800000) = 1705744800000"
    "now (brokerAt 32472144000000) = 32472144000000"
    by (simp_all add: brokerAt_def)
  from create_reader_from_timestamp [OF f b(1), of ?topic Null] b(4)
  have 1: "create dateParseSample (brokerAt 1705744800000) ?future ?topic Null
     = ([CreateReader 1000 Latest ?topic, LogReaderFrom ''latest''], Return ReaderHandle)"
    by (simp add: queueSize_def)
  from create_reader_from_timestamp [OF p b(2), of ?topic Null] b(3,5)
  have 2: "create dateParseSample (brokerAt 32472144000000) ?past ?topic Null
     = ([CreateReader 1000 Latest ?topic, SeekTimestamp 1705744800000,
         LogReaderFromTimestamp 1705744800000], Return ReaderHandle)"
    by (simp add: queueSize_def)
  from f p b 1 2 show ?thesis by simp
qed

text \<open>The sentinels do not go through the clock: \<open>earliest\<close> is the only other start.\<close>

lemma create_reader_sentinels:
  "create dateParse (brokerAt clock) [''--since'', ''earliest''] topicName Null
     = ([CreateReader 1000 Earliest topicName, LogReaderFrom ''earliest''], Return ReaderHandle)"
  "create dateParse (brokerAt clock) [''--since'', ''LATEST''] topicName Null
     = ([CreateReader 1000 Latest topicName, LogReaderFrom ''latest''], Return ReaderHandle)"
  by code_simp+

subsection \<open>The receive loop\<close>

lemma receiveLoop_starts_with_receive:
  "\<exists>t. fst (receiveLoop isReader script) = Receive isReader # t"
  by (induction isReader script rule: receiveLoop.induct)
     (auto simp: handleMessage_def split: prod.splits option.splits)

lemma receiveLoop_append_fails:
  assumes "snd (receiveLoop isReader pre) = Running"
  shows "receiveLoop isReader (pre @ Fails e # rest) =
           (if errorName e = ''TimeoutError''
            then (fst (receiveLoop isReader pre) @ fst (receiveLoop isReader rest),
                  snd (receiveLoop isReader rest))
            else (fst (receiveLoop isReader pre), Stopped e))"
  using assms
  by (induction isReader pre rule: receiveLoop.induct)
     (auto simp: handleMessage_def split: prod.splits option.splits if_splits)

text \<open>
  Claim C10. Take any run of the loop that is still going after a script \<open>pre\<close> of answers,
  and let the next receive call fail with \<open>e\<close>. If \<open>e\<close> is named \<open>TimeoutError\<close>, nothing
  is surfaced and the loop goes on with whatever follows, the first thing it does being
  another receive call; its result is that of the continuation, so with no other error it
  is still running. If \<open>e\<close> has any other name, the loop stops there and \<open>e\<close> propagates.
\<close>

theorem receiveMessages_timeout_tolerance:
  assumes "snd (receiveMessages args pre) = Running"
  shows "(errorName e = ''TimeoutError'' \<longrightarrow>
            receiveMessages args (pre @ Fails e # rest)
              = (fst (receiveMessages args pre) @ fst (receiveMessages args rest),
                 snd (receiveMessages args rest)) \<and>
            (\<exists>t. fst (receiveMessages args rest) = Receive (hasParam args Since) # t) \<and>
            snd (receiveMessages args (pre @ [Fails e])) = Running) \<and>
         (errorName e \<noteq> ''TimeoutError'' \<longrightarrow>
            receiveMessages args (pre @ Fails e # rest)
              = (fst (receiveMessages args pre), Stopped e))"
  using assms receiveLoop_append_fails [of "hasParam args Since" pre e rest]
    receiveLoop_append_fails [of "hasParam args Since" pre e "[]"]
    receiveLoop_starts_with_receive [of "hasParam args Since" rest]
  by (simp add: receiveMessages_def)

theorem receiveMessages_timeout_tolerance_witness:
  "snd (receiveMessages [] [Delivers sampleMessage None]) = Running \<and>
   errorName (ExternalError ''TimeoutError'') = ''TimeoutError'' \<and>
   receiveMessages [] ([Delivers sampleMessage None] @
       Fails (ExternalError ''TimeoutError'') # [Delivers sampleMessage None])
     = ([Receive False, LogMessage sampleMessage, Acknowledge sampleMessage,
         Receive False,
         Receive False, LogMessage sampleMessage, Acknowledge sampleMessage,
         Receive False], Running) \<and>
   errorName (ExternalError ''AlreadyClosed'') \<noteq> ''TimeoutError'' \<and>
   receiveMessages [] ([Delivers sampleMessage None] @
       Fails (ExternalError ''AlreadyClosed'') # [Delivers sampleMessage None])
     = ([Receive False, LogMessage sampleMessage, Acknowledge sampleMessage, Receive False],
        Stopped (ExternalError ''AlreadyClosed''))"
proof -
  let ?pre = "[Delivers sampleMessage None]"
  have r: "snd (receiveMessages [] ?pre) = Running" by code_simp
  have p: "fst (receiveMessages [] ?pre)
             = [Receive False, LogMessage sampleMessage, Acknowledge sampleMessage, Receive False]"
    by code_simp
  have n: "errorName (ExternalError ''TimeoutError'') = ''TimeoutError''"
    "errorName (ExternalError ''AlreadyClosed'') \<noteq> ''TimeoutError''"
    by simp_all
  from receiveMessages_timeout_tolerance [OF r, of "ExternalError ''TimeoutError''" ?pre] n(1) p r
  have 1: "receiveMessages [] (?pre @ Fails (ExternalError ''TimeoutError'') # ?pre)
     = ([Receive False, LogMessage sampleMessage, Acknowledge sampleMessage,
         Receive False,
         Receive False, LogMessage sampleMessage, Acknowledge sampleMessage,
         Receive False], Running)"
    by simp
  from receiveMessages_timeout_tolerance [OF r, of "ExternalError ''AlreadyClosed''" ?pre] n(2) p
  have 2: "receiveMessages [] (?pre @ Fails (ExternalError ''AlreadyClosed'') # ?pre)
     = ([Receive False, LogMessage sampleMessage, Acknowledge sampleMessage, Receive False],
        Stopped (ExternalError ''AlreadyClosed''))"
    by simp
  from r n 1 2 show ?thesis by simp
qed

text \<open>Any number of timeouts in a row leaves the loop running, one receive call each.\<close>

lemma receiveLoop_only_timeouts:
  "receiveLoop isReader (replicate k (Fails (ExternalError ''TimeoutError'')))
     = (replicate (Suc k) (Receive isReader), Running)"
  by (induction k) simp_all

end
